theory Spec2Isabelle
  imports Complex_Main "HOL-Library.Multiset" "HOL-Library.Log_Nat"
begin

section \<open>Go's float64\<close>

text \<open>
  The routing code computes with \<^verbatim>\<open>float64\<close>.  A finite float64 is modelled by the real
  number it denotes.  The results of the arithmetic are not rounded: a sum, a product, a
  quotient or a root is the exact real number, and overflow and the sign of zero are not
  modelled.  The conversion of an integer is rounded, to the nearest float64 and to the
  even one of two nearest, as the integers of the program reach beyond \<open>2^53\<close>, where
  the float64 numbers no longer include every integer.  The three special values are
  kept, because the division in \<^verbatim>\<open>CalculateLoadScore\<close> produces them when the capacity is
  0: in Go a float64 division by zero does not panic, it yields \<^verbatim>\<open>+Inf\<close>, \<^verbatim>\<open>-Inf\<close> or
  \<^verbatim>\<open>NaN\<close>.
\<close>

datatype float64 = F64 real | PosInf | NegInf | NaN

fun is_finite :: "float64 \<Rightarrow> bool" where
  "is_finite (F64 r) = True"
| "is_finite PosInf = False"
| "is_finite NegInf = False"
| "is_finite NaN = False"

fun fneg :: "float64 \<Rightarrow> float64" where
  "fneg (F64 a) = F64 (- a)"
| "fneg PosInf = NegInf"
| "fneg NegInf = PosInf"
| "fneg NaN = NaN"

fun fadd :: "float64 \<Rightarrow> float64 \<Rightarrow> float64" where
  "fadd (F64 a) (F64 b) = F64 (a + b)"
| "fadd NaN y = NaN"
| "fadd x NaN = NaN"
| "fadd PosInf NegInf = NaN"
| "fadd NegInf PosInf = NaN"
| "fadd PosInf y = PosInf"
| "fadd NegInf y = NegInf"
| "fadd (F64 a) PosInf = PosInf"
| "fadd (F64 a) NegInf = NegInf"

definition fsub :: "float64 \<Rightarrow> float64 \<Rightarrow> float64" where
  "fsub x y = fadd x (fneg y)"

text \<open>An infinite result of sign \<open>s\<close>; a zero sign is the invalid operation.\<close>

definition signed_inf :: "real \<Rightarrow> float64" where
  "signed_inf s = (if s = 0 then NaN else if 0 < s then PosInf else NegInf)"

fun fmul :: "float64 \<Rightarrow> float64 \<Rightarrow> float64" where
  "fmul (F64 a) (F64 b) = F64 (a * b)"
| "fmul NaN y = NaN"
| "fmul x NaN = NaN"
| "fmul (F64 a) PosInf = signed_inf a"
| "fmul (F64 a) NegInf = signed_inf (- a)"
| "fmul PosInf (F64 b) = signed_inf b"
| "fmul NegInf (F64 b) = signed_inf (- b)"
| "fmul PosInf PosInf = PosInf"
| "fmul NegInf NegInf = PosInf"
| "fmul PosInf NegInf = NegInf"
| "fmul NegInf PosInf = NegInf"

text \<open>
  Division.  A finite dividend over zero is an infinity of the dividend's sign, and
  \<^verbatim>\<open>0/0\<close> is \<^verbatim>\<open>NaN\<close>.  The divisors of the program are the constant \<^verbatim>\<open>100.0\<close> and the
  conversion of an \<^verbatim>\<open>int\<close>, so a zero divisor is always \<^verbatim>\<open>+0\<close>.
\<close>

fun fdiv :: "float64 \<Rightarrow> float64 \<Rightarrow> float64" where
  "fdiv (F64 a) (F64 b) = (if b = 0 then signed_inf a else F64 (a / b))"
| "fdiv NaN y = NaN"
| "fdiv x NaN = NaN"
| "fdiv (F64 a) PosInf = F64 0"
| "fdiv (F64 a) NegInf = F64 0"
| "fdiv PosInf (F64 b) = (if 0 \<le> b then PosInf else NegInf)"
| "fdiv NegInf (F64 b) = (if 0 \<le> b then NegInf else PosInf)"
| "fdiv PosInf PosInf = NaN"
| "fdiv PosInf NegInf = NaN"
| "fdiv NegInf PosInf = NaN"
| "fdiv NegInf NegInf = NaN"

text \<open>The comparison \<^verbatim>\<open><\<close>: false as soon as one side is \<^verbatim>\<open>NaN\<close>.\<close>

fun flt :: "float64 \<Rightarrow> float64 \<Rightarrow> bool" where
  "flt (F64 a) (F64 b) = (a < b)"
| "flt NaN y = False"
| "flt x NaN = False"
| "flt NegInf NegInf = False"
| "flt NegInf y = True"
| "flt x NegInf = False"
| "flt PosInf y = False"
| "flt (F64 a) PosInf = True"

text \<open>The comparison \<^verbatim>\<open><=\<close>.\<close>

fun fle :: "float64 \<Rightarrow> float64 \<Rightarrow> bool" where
  "fle (F64 a) (F64 b) = (a \<le> b)"
| "fle NaN y = False"
| "fle x NaN = False"
| "fle NegInf y = True"
| "fle PosInf PosInf = True"
| "fle PosInf y = False"
| "fle (F64 a) PosInf = True"
| "fle (F64 a) NegInf = False"

text \<open>\<^verbatim>\<open>math.Pow(x, 2)\<close>: the square; the square of an infinity is \<^verbatim>\<open>+Inf\<close>.\<close>

fun math_Pow_2 :: "float64 \<Rightarrow> float64" where
  "math_Pow_2 (F64 a) = F64 (a ^ 2)"
| "math_Pow_2 PosInf = PosInf"
| "math_Pow_2 NegInf = PosInf"
| "math_Pow_2 NaN = NaN"

text \<open>\<^verbatim>\<open>math.Sqrt\<close>: \<^verbatim>\<open>NaN\<close> on a negative argument.\<close>

fun math_Sqrt :: "float64 \<Rightarrow> float64" where
  "math_Sqrt (F64 a) = (if a < 0 then NaN else F64 (sqrt a))"
| "math_Sqrt PosInf = PosInf"
| "math_Sqrt NegInf = NaN"
| "math_Sqrt NaN = NaN"

text \<open>
  The conversion \<^verbatim>\<open>float64(n)\<close> of an integer.  A float64 has 53 significant bits: an
  integer of more bits is rounded to a multiple of the power of two that leaves 53 of
  them, the nearest one, and of two nearest the one whose quotient is even.
\<close>

definition round_half_even :: "int \<Rightarrow> int \<Rightarrow> int" where
  "round_half_even q n =
     (let d = n div q; r = n mod q
      in if 2 * r < q \<or> (2 * r = q \<and> even d) then d * q else (d + 1) * q)"

definition float64_quantum :: "int \<Rightarrow> int" where
  "float64_quantum n = 2 ^ nat (bitlen \<bar>n\<bar> - 53)"

definition round53 :: "int \<Rightarrow> int" where
  "round53 n = round_half_even (float64_quantum n) n"

definition float64_of_int :: "int \<Rightarrow> float64" where
  "float64_of_int n = F64 (of_int (round53 n))"


section \<open>The data model (package models)\<close>

type_synonym uuid = nat
type_synonym time = int

text \<open>
  \<^verbatim>\<open>models.Node\<close>.  \<^verbatim>\<open>Capacity\<close> and \<^verbatim>\<open>ActiveConnections\<close> are Go \<^verbatim>\<open>int\<close>s; the program
  only copies them and converts them to float64, so they are integers here.
\<close>

record Node =
  ID :: uuid
  Name :: string
  LocationX :: float64
  LocationY :: float64
  Endpoint :: string
  Capacity :: int
  Status :: string
  CPUUsage :: float64
  MemoryUsage :: float64
  ActiveConnections :: int
  LastHealthCheck :: "time option"
  CreatedAt :: time
  UpdatedAt :: time

text \<open>The zero value \<^verbatim>\<open>models.Node{}\<close>.\<close>

definition zero_Node :: Node where
  "zero_Node = \<lparr> ID = 0, Name = [], LocationX = F64 0, LocationY = F64 0, Endpoint = [],
     Capacity = 0, Status = [], CPUUsage = F64 0, MemoryUsage = F64 0,
     ActiveConnections = 0, LastHealthCheck = None, CreatedAt = 0, UpdatedAt = 0 \<rparr>"

text \<open>\<^verbatim>\<open>models.Location\<close>.\<close>

record Location =
  Location_X :: float64
  Location_Y :: float64


section \<open>Distance, nearest nodes and load score (package routing)\<close>

definition CalculateDistance :: "float64 \<Rightarrow> float64 \<Rightarrow> float64 \<Rightarrow> float64 \<Rightarrow> float64" where
  "CalculateDistance x1 y1 x2 y2 =
     math_Sqrt (fadd (math_Pow_2 (fsub x1 x2)) (math_Pow_2 (fsub y1 y2)))"

text \<open>The three weights are local constants of \<^verbatim>\<open>CalculateLoadScore\<close>.\<close>

definition cpuWeight :: real where "cpuWeight = 0.4"
definition memWeight :: real where "memWeight = 0.3"
definition connWeight :: real where "connWeight = 0.3"

definition CalculateLoadScore :: "Node \<Rightarrow> float64" where
  "CalculateLoadScore node =
     (let cpuScore = fdiv (CPUUsage node) (F64 100);
          memScore = fdiv (MemoryUsage node) (F64 100);
          connScore = fdiv (float64_of_int (ActiveConnections node))
                           (float64_of_int (Capacity node))
      in fadd (fadd (fmul (F64 cpuWeight) cpuScore) (fmul (F64 memWeight) memScore))
              (fmul (F64 connWeight) connScore))"

definition calculateLoadScore :: "Node \<Rightarrow> float64" where
  "calculateLoadScore node = CalculateLoadScore node"

text \<open>
  \<^verbatim>\<open>sort.Slice\<close> of the Go library.  For slices of at most 12 elements it runs the
  insertion sort below (from the second element on, each element is swapped towards the
  front while it is less than its predecessor); for longer slices the library switches
  to a quicksort, which also permutes the slice by swaps but may leave elements that
  compare equal in another order.  The prefix already sorted is kept reversed, so that
  its last element is at the head.  The comparison need not be an order (it is false on
  \<^verbatim>\<open>NaN\<close>); whatever it is, the result is a permutation of the slice.
\<close>

fun insert_back :: "('a \<Rightarrow> 'a \<Rightarrow> bool) \<Rightarrow> 'a \<Rightarrow> 'a list \<Rightarrow> 'a list" where
  "insert_back lt x [] = [x]"
| "insert_back lt x (y # ys) =
     (if lt x y then y # insert_back lt x ys else x # y # ys)"

definition sort_Slice :: "('a \<Rightarrow> 'a \<Rightarrow> bool) \<Rightarrow> 'a list \<Rightarrow> 'a list" where
  "sort_Slice lt xs = rev (foldl (\<lambda>pre x. insert_back lt x pre) [] xs)"

text \<open>The local struct \<^verbatim>\<open>NodeWithDistance\<close>: a node and its distance.\<close>

type_synonym NodeWithDistance = "Node \<times> float64"

text \<open>Runtime failures of the Go program: an error value returned, or a panic.\<close>

datatype error = QueryError string | RuntimePanic string

text \<open>
  \<^verbatim>\<open>make([]models.Node, 0, k)\<close> panics when \<open>k\<close> is negative, and when \<open>k\<close> elements take
  more bytes than the runtime allocates at all: \<^verbatim>\<open>maxAlloc\<close>, which is \<open>2^48\<close> on the 64-bit
  platforms.  There a \<^verbatim>\<open>models.Node\<close> takes 168 bytes: 16 for the identifier, 16 for each
  of the three strings, 8 for each of the four floats, of the two integers and of the
  pointer, 24 for each of the two times.  An allocation that \<^verbatim>\<open>make\<close> accepts is taken to
  succeed: running out of memory is not modelled.
\<close>

definition sizeof_Node :: int where
  "sizeof_Node = 168"

definition maxAlloc :: int where
  "maxAlloc = 2 ^ 48"

text \<open>
  After the sort the loop copies the first \<open>k\<close> nodes, or all of them when there are
  fewer.
\<close>

definition FindKNearestNodes :: "Node list \<Rightarrow> float64 \<Rightarrow> float64 \<Rightarrow> int \<Rightarrow> error + Node list" where
  "FindKNearestNodes nodes x y k =
     (let nodesWithDistance =
            map (\<lambda>node. (node, CalculateDistance x y (LocationX node) (LocationY node)))
                (filter (\<lambda>node. Status node = ''healthy'') nodes);
          sortedNodes = sort_Slice (\<lambda>a b. flt (snd a) (snd b)) nodesWithDistance
      in if k < 0 \<or> maxAlloc < sizeof_Node * k
         then Inl (RuntimePanic ''makeslice: cap out of range'')
         else Inr (map fst (take (nat k) sortedNodes)))"

text \<open>The loop of \<^verbatim>\<open>SelectBestNode\<close>: the best node so far and its score.\<close>

fun best_loop :: "Node \<times> float64 \<Rightarrow> Node list \<Rightarrow> Node \<times> float64" where
  "best_loop best [] = best"
| "best_loop (bestNode, bestScore) (node # rest) =
     (let score = calculateLoadScore node
      in if flt score bestScore then best_loop (node, score) rest
         else best_loop (bestNode, bestScore) rest)"

definition SelectBestNode :: "Node list \<Rightarrow> Node" where
  "SelectBestNode nodes =
     (case nodes of
        [] \<Rightarrow> zero_Node
      | first # rest \<Rightarrow> fst (best_loop (first, calculateLoadScore first) rest))"


section \<open>The nodes table and its queries (package db)\<close>

text \<open>
  The row type \<^verbatim>\<open>db.Node\<close> is generated from the table of the migration
  \<^verbatim>\<open>00001_create_nodes_table.sql\<close>; its fields here are the columns of that table, under
  the names by which \<^verbatim>\<open>convertDBNodeToModel\<close> reads them.  The columns declared without
  \<^verbatim>\<open>NOT NULL\<close> are nullable: a \<^verbatim>\<open>NULL\<close> is \<open>None\<close>, and the Go field read from it
  (\<^verbatim>\<open>.Int32\<close>, \<^verbatim>\<open>.String\<close>, \<^verbatim>\<open>.Float64\<close>, \<^verbatim>\<open>.Time\<close>) is then the zero value.
\<close>

record db_Node =
  db_ID :: uuid
  db_Name :: string
  db_LocationX :: float64
  db_LocationY :: float64
  db_Endpoint :: string
  db_Capacity :: "int option"
  db_Status :: "string option"
  db_CpuUsage :: "float64 option"
  db_MemoryUsage :: "float64 option"
  db_ActiveConnections :: "int option"
  db_LastHealthCheck :: "time option"
  db_CreatedAt :: "time option"
  db_UpdatedAt :: "time option"

text \<open>
  The database: the rows of table \<^verbatim>\<open>nodes\<close>, listed in the order in which
  \<^verbatim>\<open>ORDER BY created_at DESC\<close> returns them, and the error with which every query fails
  when the database cannot be reached.
\<close>

record Database =
  nodes_table :: "db_Node list"
  failure :: "string option"

definition GetAllNodes :: "Database \<Rightarrow> error + db_Node list" where
  "GetAllNodes d =
     (case failure d of
        Some e \<Rightarrow> Inl (QueryError e)
      | None \<Rightarrow> Inr (nodes_table d))"

definition GetHealthyNodes :: "Database \<Rightarrow> error + db_Node list" where
  "GetHealthyNodes d =
     (case failure d of
        Some e \<Rightarrow> Inl (QueryError e)
      | None \<Rightarrow> Inr (filter (\<lambda>r. db_Status r = Some ''healthy'') (nodes_table d)))"

definition or_zero :: "'a::zero option \<Rightarrow> 'a" where
  "or_zero v = (case v of None \<Rightarrow> 0 | Some x \<Rightarrow> x)"

text \<open>
  \<^verbatim>\<open>uuid.FromBytes\<close> fails only on a slice that is not 16 bytes long, and the slice
  is the whole 16-byte array of the row's id: the identifier is copied.
\<close>

definition convertDBNodeToModel :: "db_Node \<Rightarrow> Node" where
  "convertDBNodeToModel node =
     \<lparr> ID = db_ID node,
       Name = db_Name node,
       LocationX = db_LocationX node,
       LocationY = db_LocationY node,
       Endpoint = db_Endpoint node,
       Capacity = or_zero (db_Capacity node),
       Status = (case db_Status node of None \<Rightarrow> [] | Some s \<Rightarrow> s),
       CPUUsage = (case db_CpuUsage node of None \<Rightarrow> F64 0 | Some c \<Rightarrow> c),
       MemoryUsage = (case db_MemoryUsage node of None \<Rightarrow> F64 0 | Some m \<Rightarrow> m),
       ActiveConnections = or_zero (db_ActiveConnections node),
       LastHealthCheck = db_LastHealthCheck node,
       CreatedAt = or_zero (db_CreatedAt node),
       UpdatedAt = or_zero (db_UpdatedAt node) \<rparr>"


section \<open>Routing a request (routing.Service)\<close>

text \<open>
  \<^verbatim>\<open>RouteRequest\<close> returns \<^verbatim>\<open>(node, err)\<close>: \<open>Inl\<close> is the error of the query, \<open>Inr None\<close> is
  \<^verbatim>\<open>(nil, nil)\<close>, no healthy node available, and \<open>Inr (Some n)\<close> is the selected node.
  The number of nearest nodes is the literal 3.
\<close>

definition RouteRequest :: "Database \<Rightarrow> string \<Rightarrow> Location \<Rightarrow> error + Node option" where
  "RouteRequest d requestID coordinates =
     (case GetHealthyNodes d of
        Inl err \<Rightarrow> Inl err
      | Inr nodes \<Rightarrow>
          (let modelNodes = map convertDBNodeToModel nodes
           in case FindKNearestNodes modelNodes (Location_X coordinates)
                     (Location_Y coordinates) 3 of
                Inl p \<Rightarrow> Inl p
              | Inr nearestNodes \<Rightarrow>
                  if length nearestNodes = 0 then Inr None
                  else Inr (Some (SelectBestNode nearestNodes))))"


section \<open>The HTTP handlers (package api)\<close>

text \<open>Values sent as JSON: the payload of a websocket message.\<close>

datatype json =
    JString string
  | JFloat float64
  | JInt int
  | JUUID uuid
  | JTime time
  | JNode Node
  | JObject "(string \<times> json) list"

record Message =
  msg_Type :: string
  msg_Data :: json

text \<open>The request structs; the fields tagged \<^verbatim>\<open>binding:"required"\<close> are named below.\<close>

record RouteRequest_body =
  req_RequestID :: string
  req_Coordinates :: Location
  req_Priority :: string

record RegisterNodeRequest =
  reg_Name :: string
  reg_Location :: Location
  reg_Endpoint :: string

record CreateNodeRequest =
  new_Name :: string
  new_Location :: Location
  new_Endpoint :: string
  new_Capacity :: int

record NodeInfo =
  info_ID :: uuid
  info_Name :: string
  info_Endpoint :: string
  info_Distance :: float64
  info_LoadScore :: float64

record RouteResponse =
  RoutedTo :: NodeInfo
  resp_RequestID :: string

text \<open>
  \<^verbatim>\<open>ShouldBindJSON\<close> belongs to the web framework.  Its input here is the request body
  as decoded into the struct, a field absent from the body being the zero value, or
  \<open>None\<close> when the body is not JSON of that shape.  The tag \<^verbatim>\<open>required\<close> rejects the zero
  value of the field: the empty string, the number 0.
\<close>

datatype bind_error = MalformedJSON | RequiredFieldMissing

definition required_string :: "string \<Rightarrow> bool" where
  "required_string s = (s \<noteq> [])"

definition required_Location :: "Location \<Rightarrow> bool" where
  "required_Location l = (Location_X l \<noteq> F64 0 \<and> Location_Y l \<noteq> F64 0)"

definition bind_RouteRequest :: "RouteRequest_body option \<Rightarrow> bind_error + RouteRequest_body" where
  "bind_RouteRequest body =
     (case body of
        None \<Rightarrow> Inl MalformedJSON
      | Some req \<Rightarrow>
          if required_string (req_RequestID req) \<and> required_Location (req_Coordinates req)
          then Inr req else Inl RequiredFieldMissing)"

definition bind_RegisterNodeRequest ::
  "RegisterNodeRequest option \<Rightarrow> bind_error + RegisterNodeRequest" where
  "bind_RegisterNodeRequest body =
     (case body of
        None \<Rightarrow> Inl MalformedJSON
      | Some req \<Rightarrow>
          if required_string (reg_Name req) \<and> required_Location (reg_Location req)
             \<and> required_string (reg_Endpoint req)
          then Inr req else Inl RequiredFieldMissing)"

definition bind_CreateNodeRequest ::
  "CreateNodeRequest option \<Rightarrow> bind_error + CreateNodeRequest" where
  "bind_CreateNodeRequest body =
     (case body of
        None \<Rightarrow> Inl MalformedJSON
      | Some req \<Rightarrow>
          if required_string (new_Name req) \<and> required_Location (new_Location req)
             \<and> required_string (new_Endpoint req)
          then Inr req else Inl RequiredFieldMissing)"

text \<open>An HTTP response: the status code and the JSON body.\<close>

datatype body =
    ErrorBody string
  | BindErrorBody bind_error
  | RouteBody RouteResponse
  | NodeBody Node
  | EmptyBody

record http_response =
  code :: nat
  payload :: body

abbreviation StatusOK :: nat where "StatusOK \<equiv> 200"
abbreviation StatusCreated :: nat where "StatusCreated \<equiv> 201"
abbreviation StatusBadRequest :: nat where "StatusBadRequest \<equiv> 400"
abbreviation StatusInternalServerError :: nat where "StatusInternalServerError \<equiv> 500"
abbreviation StatusServiceUnavailable :: nat where "StatusServiceUnavailable \<equiv> 503"

text \<open>
  \<^verbatim>\<open>c.JSON\<close> sets the status and encodes the value with \<^verbatim>\<open>encoding/json\<close>, which refuses a
  float64 that is an infinity or \<^verbatim>\<open>NaN\<close>.  The framework then records the error and writes
  nothing: the response keeps its status and has an empty body.  The floats of a
  \<^verbatim>\<open>RouteResponse\<close> are the distance and the load score.
\<close>

definition json_encodable :: "RouteResponse \<Rightarrow> bool" where
  "json_encodable resp =
     (is_finite (info_Distance (RoutedTo resp)) \<and> is_finite (info_LoadScore (RoutedTo resp)))"

text \<open>
  A handler yields its response and the messages it sends on the hub's \<^verbatim>\<open>Broadcast\<close>
  channel, in order.  \<open>now\<close> is the clock read by \<^verbatim>\<open>time.Now()\<close>.  A panic of the routing
  service would pass through the handler; an error it returns becomes the status 500.
\<close>

definition PublicHandler_RouteRequest ::
  "Database \<Rightarrow> time \<Rightarrow> RouteRequest_body option \<Rightarrow> error + http_response \<times> Message list" where
  "PublicHandler_RouteRequest d now body =
     (case bind_RouteRequest body of
        Inl err \<Rightarrow> Inr (\<lparr> code = StatusBadRequest, payload = BindErrorBody err \<rparr>, [])
      | Inr req \<Rightarrow>
          (case RouteRequest d (req_RequestID req) (req_Coordinates req) of
             Inl (RuntimePanic p) \<Rightarrow> Inl (RuntimePanic p)
           | Inl (QueryError e) \<Rightarrow>
               Inr (\<lparr> code = StatusInternalServerError,
                      payload = ErrorBody ''Failed to route request'' \<rparr>, [])
           | Inr None \<Rightarrow>
               Inr (\<lparr> code = StatusServiceUnavailable,
                      payload = ErrorBody ''No healthy nodes available'' \<rparr>, [])
           | Inr (Some selectedNode) \<Rightarrow>
               (let distance = CalculateDistance (Location_X (req_Coordinates req))
                                 (Location_Y (req_Coordinates req))
                                 (LocationX selectedNode) (LocationY selectedNode);
                    loadScore = CalculateLoadScore selectedNode;
                    update = \<lparr> msg_Type = ''route_request'',
                               msg_Data = JObject
                                 [(''request_id'', JString (req_RequestID req)),
                                  (''coordinates_x'', JFloat (Location_X (req_Coordinates req))),
                                  (''coordinates_y'', JFloat (Location_Y (req_Coordinates req))),
                                  (''selected_node'', JNode selectedNode),
                                  (''distance'', JFloat distance),
                                  (''load_score'', JFloat loadScore),
                                  (''status'', JString ''routed''),
                                  (''timestamp'', JTime now)] \<rparr>;
                    response = \<lparr> RoutedTo = \<lparr> info_ID = ID selectedNode,
                                              info_Name = Name selectedNode,
                                              info_Endpoint = Endpoint selectedNode,
                                              info_Distance = distance,
                                              info_LoadScore = loadScore \<rparr>,
                                 resp_RequestID = req_RequestID req \<rparr>
                in Inr (\<lparr> code = StatusOK,
                          payload = (if json_encodable response then RouteBody response
                                     else EmptyBody) \<rparr>,
                        [update]))))"

text \<open>
  The two registration handlers store nothing: each builds a node, broadcasts it and
  returns it.  \<open>nodeUUID\<close> is the value of \<^verbatim>\<open>uuid.New()\<close>; \<open>created\<close> and \<open>updated\<close> are the
  two readings of the clock.
\<close>

definition PublicHandler_RegisterNode ::
  "uuid \<Rightarrow> time \<Rightarrow> time \<Rightarrow> RegisterNodeRequest option \<Rightarrow> http_response \<times> Message list" where
  "PublicHandler_RegisterNode nodeUUID created updated body =
     (case bind_RegisterNodeRequest body of
        Inl err \<Rightarrow> (\<lparr> code = StatusBadRequest, payload = BindErrorBody err \<rparr>, [])
      | Inr req \<Rightarrow>
          (let mockNode = zero_Node
                 \<lparr> ID := nodeUUID,
                   Name := reg_Name req,
                   LocationX := Location_X (reg_Location req),
                   LocationY := Location_Y (reg_Location req),
                   Endpoint := reg_Endpoint req,
                   Capacity := 100,
                   Status := ''active'',
                   CreatedAt := created,
                   UpdatedAt := updated \<rparr>
           in (\<lparr> code = StatusCreated, payload = NodeBody mockNode \<rparr>,
               [\<lparr> msg_Type = ''node_registered'', msg_Data = JNode mockNode \<rparr>])))"

definition AdminHandler_CreateNode ::
  "uuid \<Rightarrow> time \<Rightarrow> time \<Rightarrow> CreateNodeRequest option \<Rightarrow> http_response \<times> Message list" where
  "AdminHandler_CreateNode nodeUUID created updated body =
     (case bind_CreateNodeRequest body of
        Inl err \<Rightarrow> (\<lparr> code = StatusBadRequest, payload = BindErrorBody err \<rparr>, [])
      | Inr req \<Rightarrow>
          (let capacity = (if new_Capacity req = 0 then 100 else new_Capacity req);
               mockNode = zero_Node
                 \<lparr> ID := nodeUUID,
                   Name := new_Name req,
                   LocationX := Location_X (new_Location req),
                   LocationY := Location_Y (new_Location req),
                   Endpoint := new_Endpoint req,
                   Capacity := capacity,
                   Status := ''inactive'',
                   CreatedAt := created,
                   UpdatedAt := updated \<rparr>
           in (\<lparr> code = StatusCreated, payload = NodeBody mockNode \<rparr>,
               [\<lparr> msg_Type = ''node_created'', msg_Data = JNode mockNode \<rparr>])))"


section \<open>The health monitor (package health)\<close>

text \<open>\<^verbatim>\<open>config.HealthConfig\<close> and the values \<^verbatim>\<open>config.Load\<close> gives it when the environment sets none.\<close>

record HealthConfig =
  CheckInterval :: int
  Timeout :: int
  FailureThreshold :: int

definition default_HealthConfig :: HealthConfig where
  "default_HealthConfig = \<lparr> CheckInterval = 30, Timeout = 5, FailureThreshold = 3 \<rparr>"

text \<open>
  What the monitor works on: the database and the messages the hub has taken from its
  \<^verbatim>\<open>Broadcast\<close> channel.  \<^verbatim>\<open>NewMonitor\<close> receives the database, the hub and the check
  interval; the failure threshold of the configuration is not passed to it.
\<close>

record monitor_state =
  database :: Database
  broadcast :: "Message list"

text \<open>
  The circumstances of one call of \<^verbatim>\<open>checkNode\<close>: the value of \<^verbatim>\<open>uuid.New()\<close>, the clock,
  and whether the hub is ready to receive, in which case the \<^verbatim>\<open>select\<close> sends the message;
  otherwise its \<^verbatim>\<open>default\<close> branch skips it.
\<close>

record probe_env =
  mock_id :: uuid
  clock :: time
  hub_ready :: bool

definition checkNode :: "probe_env \<Rightarrow> monitor_state \<Rightarrow> db_Node \<Rightarrow> monitor_state" where
  "checkNode env s node =
     (let mockHealthUpdate =
            \<lparr> msg_Type = ''node_health_updated'',
              msg_Data = JObject
                [(''id'', JUUID (mock_id env)),
                 (''name'', JString ''Mock Node''),
                 (''status'', JString ''healthy''),
                 (''cpu_usage'', JFloat (F64 45.5)),
                 (''memory_usage'', JFloat (F64 67.8)),
                 (''active_connections'', JInt 23),
                 (''last_health_check'', JTime (clock env))] \<rparr>
      in if hub_ready env then s\<lparr> broadcast := broadcast s @ [mockHealthUpdate] \<rparr> else s)"

text \<open>
  \<^verbatim>\<open>checkAllNodes\<close> starts one \<^verbatim>\<open>checkNode\<close> per row; the calls are run here one after the
  other, in the order of the rows, the i-th in the circumstances \<open>envs i\<close>.
\<close>

fun check_each :: "(nat \<Rightarrow> probe_env) \<Rightarrow> nat \<Rightarrow> monitor_state \<Rightarrow> db_Node list \<Rightarrow> monitor_state" where
  "check_each envs i s [] = s"
| "check_each envs i s (node # nodes) = check_each envs (Suc i) (checkNode (envs i) s node) nodes"

definition checkAllNodes :: "(nat \<Rightarrow> probe_env) \<Rightarrow> monitor_state \<Rightarrow> monitor_state" where
  "checkAllNodes envs s =
     (case GetAllNodes (database s) of
        Inl err \<Rightarrow> s
      | Inr nodes \<Rightarrow> check_each envs 0 s nodes)"

text \<open>
  \<^verbatim>\<open>Start\<close> calls \<^verbatim>\<open>checkAllNodes\<close> at every tick, forever; \<open>Start_ticks\<close> is the state after
  the first \<open>n\<close> ticks, the tick \<open>t\<close> running in the circumstances \<open>envs t\<close>.
\<close>

fun Start_ticks :: "(nat \<Rightarrow> nat \<Rightarrow> probe_env) \<Rightarrow> nat \<Rightarrow> monitor_state \<Rightarrow> monitor_state" where
  "Start_ticks envs 0 s = s"
| "Start_ticks envs (Suc n) s = checkAllNodes (envs n) (Start_ticks envs n s)"


section \<open>Notions and data used in the statements\<close>

text \<open>The healthy set of a list of nodes: what \<^verbatim>\<open>FindKNearestNodes\<close> keeps of it.\<close>

definition healthy_nodes :: "Node list \<Rightarrow> Node list" where
  "healthy_nodes nodes = filter (\<lambda>node. Status node = ''healthy'') nodes"

text \<open>The distance of a node from the coordinate \<open>(x, y)\<close>, as the code computes it.\<close>

definition distance_to :: "float64 \<Rightarrow> float64 \<Rightarrow> Node \<Rightarrow> float64" where
  "distance_to x y node = CalculateDistance x y (LocationX node) (LocationY node)"

text \<open>A list of nodes in order of distance: no node is nearer than one before it.\<close>

definition nearest_first :: "float64 \<Rightarrow> float64 \<Rightarrow> Node list \<Rightarrow> bool" where
  "nearest_first x y nodes =
     sorted_wrt (\<lambda>a b. \<not> flt (distance_to x y b) (distance_to x y a)) nodes"

text \<open>The healthy rows of the table: what \<^verbatim>\<open>GetHealthyNodes\<close> selects.\<close>

definition healthy_rows :: "Database \<Rightarrow> db_Node list" where
  "healthy_rows d = filter (\<lambda>r. db_Status r = Some ''healthy'') (nodes_table d)"

text \<open>
  The rows of the scenario: N1 at (0,0) and N2 at (10,10), both healthy and of capacity
  100, N1 with cpu 10, memory 10 and no connection, N2 with cpu 90, memory 90 and 90
  connections.
\<close>

definition N1_row :: db_Node where
  "N1_row = \<lparr> db_ID = 1, db_Name = ''N1'', db_LocationX = F64 0, db_LocationY = F64 0,
     db_Endpoint = ''http://n1:9000'', db_Capacity = Some 100, db_Status = Some ''healthy'',
     db_CpuUsage = Some (F64 10), db_MemoryUsage = Some (F64 10),
     db_ActiveConnections = Some 0, db_LastHealthCheck = Some 50,
     db_CreatedAt = Some 10, db_UpdatedAt = Some 50 \<rparr>"

definition N2_row :: db_Node where
  "N2_row = \<lparr> db_ID = 2, db_Name = ''N2'', db_LocationX = F64 10, db_LocationY = F64 10,
     db_Endpoint = ''http://n2:9000'', db_Capacity = Some 100, db_Status = Some ''healthy'',
     db_CpuUsage = Some (F64 90), db_MemoryUsage = Some (F64 90),
     db_ActiveConnections = Some 90, db_LastHealthCheck = Some 50,
     db_CreatedAt = Some 20, db_UpdatedAt = Some 50 \<rparr>"

definition N1 :: Node where
  "N1 = convertDBNodeToModel N1_row"

definition N2 :: Node where
  "N2 = convertDBNodeToModel N2_row"

text \<open>A third row, at the request coordinate (1,1) itself, of any status.\<close>

definition N3_row :: "string \<Rightarrow> db_Node" where
  "N3_row st = \<lparr> db_ID = 3, db_Name = ''N3'', db_LocationX = F64 1, db_LocationY = F64 1,
     db_Endpoint = ''http://n3:9000'', db_Capacity = Some 100, db_Status = Some st,
     db_CpuUsage = Some (F64 0), db_MemoryUsage = Some (F64 0),
     db_ActiveConnections = Some 0, db_LastHealthCheck = None,
     db_CreatedAt = Some 30, db_UpdatedAt = Some 30 \<rparr>"

text \<open>A healthy row whose capacity column is 0.\<close>

definition N4_row :: db_Node where
  "N4_row = \<lparr> db_ID = 4, db_Name = ''N4'', db_LocationX = F64 2, db_LocationY = F64 2,
     db_Endpoint = ''http://n4:9000'', db_Capacity = Some 0, db_Status = Some ''healthy'',
     db_CpuUsage = Some (F64 20), db_MemoryUsage = Some (F64 20),
     db_ActiveConnections = Some 5, db_LastHealthCheck = Some 50,
     db_CreatedAt = Some 40, db_UpdatedAt = Some 50 \<rparr>"


definition origin_request :: Location where
  "origin_request = \<lparr> Location_X = F64 1, Location_Y = F64 1 \<rparr>"

definition route_body :: RouteRequest_body where
  "route_body = \<lparr> req_RequestID = ''req-1'', req_Coordinates = origin_request,
     req_Priority = [] \<rparr>"

definition create_body :: "int \<Rightarrow> CreateNodeRequest" where
  "create_body cap = \<lparr> new_Name = ''edge-1'',
     new_Location = \<lparr> Location_X = F64 3, Location_Y = F64 4 \<rparr>,
     new_Endpoint = ''http://edge-1:9000'', new_Capacity = cap \<rparr>"

definition register_body :: "string \<Rightarrow> string \<Rightarrow> RegisterNodeRequest" where
  "register_body nm ep = \<lparr> reg_Name = nm,
     reg_Location = \<lparr> Location_X = F64 3, Location_Y = F64 4 \<rparr>, reg_Endpoint = ep \<rparr>"

text \<open>Every call of \<^verbatim>\<open>checkNode\<close> finds the hub ready to receive.\<close>

definition ready_envs :: "nat \<Rightarrow> nat \<Rightarrow> probe_env" where
  "ready_envs t i = \<lparr> mock_id = 100 * t + i, clock = int t, hub_ready = True \<rparr>"


section \<open>The conversion of integers\<close>

lemma rhe_multiple: "0 < q \<Longrightarrow> round_half_even q (k * q) = k * q"
  by (simp add: round_half_even_def)

lemma rhe_bounds:
  assumes "0 < q"
  shows "(n div q) * q \<le> round_half_even q n" "round_half_even q n \<le> (n div q + 1) * q"
  using assms by (auto simp: round_half_even_def Let_def algebra_simps)

lemma rhe_mono:
  assumes "0 < q" "m \<le> n"
  shows "round_half_even q m \<le> round_half_even q n"
proof (cases "m div q = n div q")
  case True
  have "m mod q \<le> n mod q"
    using assms True by (metis add_le_cancel_left mult_div_mod_eq)
  then show ?thesis
    using assms True by (auto simp: round_half_even_def Let_def algebra_simps)
next
  case False
  have "m div q \<le> n div q"
    using assms by (simp add: zdiv_mono1)
  with False have "m div q + 1 \<le> n div q" by simp
  then have "(m div q + 1) * q \<le> (n div q) * q"
    using assms(1) by (simp add: mult_right_mono)
  then show ?thesis
    using rhe_bounds [OF assms(1), of m] rhe_bounds [OF assms(1), of n] by linarith
qed

lemma rhe_minus:
  assumes "0 < q"
  shows "round_half_even q (- n) = - round_half_even q n"
proof (cases "n mod q = 0")
  case True
  then obtain k where "n = k * q" by (metis mod_eq_0_iff_dvd dvd_def mult.commute)
  then show ?thesis
    using assms rhe_multiple [of q k] rhe_multiple [of q "- k"] by simp
next
  case False
  have "0 \<le> n mod q" "n mod q < q"
    using assms by simp_all
  with False have pos: "0 < n mod q" "n mod q < q"
    by simp_all
  have d: "(- n) div q = - (n div q) - 1" and r: "(- n) mod q = q - n mod q"
    using False assms by (simp_all add: zdiv_zminus1_eq_if zmod_zminus1_eq_if)
  show ?thesis
    using pos by (auto simp: round_half_even_def Let_def d r algebra_simps)
qed

lemma quantum_pos: "0 < float64_quantum n"
  by (simp add: float64_quantum_def)

lemma round53_minus: "round53 (- n) = - round53 n"
  by (simp add: round53_def float64_quantum_def rhe_minus)

lemma quantum_small: "\<bar>n\<bar> < 2 ^ 53 \<Longrightarrow> float64_quantum n = 1"
proof -
  assume "\<bar>n\<bar> < 2 ^ 53"
  then have "bitlen \<bar>n\<bar> \<le> 53"
    by (simp add: bitlen_le_iff_power)
  then show ?thesis
    by (simp add: float64_quantum_def)
qed

lemma rhe_one: "round_half_even 1 n = n"
  by (simp add: round_half_even_def)

lemma round53_range:
  assumes "0 < n"
  shows "2 ^ nat (bitlen n - 1) \<le> round53 n" "round53 n \<le> 2 ^ nat (bitlen n)"
proof -
  have bounds: "2 ^ nat (bitlen n - 1) \<le> n" "n < 2 ^ nat (bitlen n)"
    using bitlen_bounds [OF assms] by simp_all
  have b1: "1 \<le> bitlen n"
    using assms bitlen_eq_zero_iff [of n] bitlen_nonneg [of n] by linarith
  have both: "2 ^ nat (bitlen n - 1) \<le> round53 n \<and> round53 n \<le> 2 ^ nat (bitlen n)"
  proof (cases "bitlen n \<le> 53")
    case True
    then have "float64_quantum n = 1"
      using assms by (simp add: float64_quantum_def)
    then show ?thesis
      using bounds by (simp add: round53_def rhe_one)
  next
    case False
    define e where "e = nat (bitlen n - 53)"
    have q: "float64_quantum n = 2 ^ e"
      using assms by (simp add: float64_quantum_def e_def)
    have lo: "(2::int) ^ nat (bitlen n - 1) = 2 ^ 52 * 2 ^ e"
    proof -
      have "nat (bitlen n - 1) = 52 + e" using False by (simp add: e_def)
      then show ?thesis by (simp add: power_add)
    qed
    have hi: "(2::int) ^ nat (bitlen n) = 2 ^ 53 * 2 ^ e"
    proof -
      have "nat (bitlen n) = 53 + e" using False by (simp add: e_def)
      then show ?thesis by (simp add: power_add)
    qed
    have "round_half_even (2 ^ e) (2 ^ 52 * 2 ^ e) \<le> round_half_even (2 ^ e) n"
      using bounds(1) lo by (intro rhe_mono) simp_all
    moreover have "round_half_even (2 ^ e) n \<le> round_half_even (2 ^ e) (2 ^ 53 * 2 ^ e)"
      using bounds(2) hi by (intro rhe_mono) simp_all
    moreover have "round_half_even (2 ^ e) (2 ^ 52 * 2 ^ e) = 2 ^ 52 * 2 ^ e"
        "round_half_even (2 ^ e) (2 ^ 53 * 2 ^ e) = 2 ^ 53 * 2 ^ e"
      by (rule rhe_multiple, simp)+
    ultimately show ?thesis
      by (simp add: round53_def q lo hi)
  qed
  show "2 ^ nat (bitlen n - 1) \<le> round53 n" "round53 n \<le> 2 ^ nat (bitlen n)"
    using both by simp_all
qed

lemma round53_zero: "round53 0 = 0"
  by (simp add: round53_def round_half_even_def float64_quantum_def)

lemma bitlen_mono: "m \<le> n \<Longrightarrow> bitlen m \<le> bitlen n"
  by (simp add: bitlen_def floorlog_mono nat_mono)

lemma round53_mono_pos:
  assumes "0 < m" "m \<le> n"
  shows "round53 m \<le> round53 n"
proof (cases "bitlen m = bitlen n")
  case True
  then have "float64_quantum m = float64_quantum n"
    using assms by (simp add: float64_quantum_def)
  then show ?thesis
    using assms(2) quantum_pos [of n] by (simp add: round53_def rhe_mono)
next
  case False
  with bitlen_mono [OF assms(2)] have less: "bitlen m \<le> bitlen n - 1" by simp
  have "round53 m \<le> 2 ^ nat (bitlen m)"
    using round53_range(2) [OF assms(1)] .
  also have "\<dots> \<le> 2 ^ nat (bitlen n - 1)"
    using less by (intro power_increasing) simp_all
  also have "\<dots> \<le> round53 n"
    using round53_range(1) [of n] assms by simp
  finally show ?thesis .
qed

lemma round53_nonneg: "0 \<le> n \<Longrightarrow> 0 \<le> round53 n"
proof (cases "n = 0")
  case True
  then show ?thesis by (simp add: round53_zero)
next
  case False
  assume "0 \<le> n"
  with False have "0 < n" by simp
  from round53_range(1) [OF this] show ?thesis
    by (meson order_trans zero_le_numeral zero_le_power)
qed

lemma round53_mono:
  assumes "m \<le> n"
  shows "round53 m \<le> round53 n"
proof -
  consider "0 < m" | "m \<le> 0" "0 \<le> n" | "n < 0"
    using assms by linarith
  then show ?thesis
  proof cases
    case 1
    then show ?thesis using assms by (rule round53_mono_pos)
  next
    case 2
    have "0 \<le> round53 (- m)" using 2(1) by (intro round53_nonneg) simp
    then have "round53 m \<le> 0" by (simp add: round53_minus)
    also have "0 \<le> round53 n" using 2(2) by (rule round53_nonneg)
    finally show ?thesis .
  next
    case 3
    have "round53 (- n) \<le> round53 (- m)"
      using 3 assms by (intro round53_mono_pos) simp_all
    then show ?thesis by (simp add: round53_minus)
  qed
qed

lemma round53_exact:
  assumes "\<bar>n\<bar> \<le> 2 ^ 53"
  shows "round53 n = n"
proof (cases "\<bar>n\<bar> < 2 ^ 53")
  case True
  then show ?thesis
    by (simp add: round53_def quantum_small rhe_one)
next
  case False
  with assms have abs: "\<bar>n\<bar> = 2 ^ 53" by simp
  have "bitlen (2 ^ 53) = 54"
    using bitlen_twopow_add_eq [of 0 53] by simp
  then have "float64_quantum n = 2"
    by (simp add: float64_quantum_def abs)
  moreover have "n = 2 ^ 52 * 2 \<or> n = (- (2 ^ 52)) * 2"
    using abs by (cases "0 \<le> n") simp_all
  ultimately show ?thesis
    using rhe_multiple [of 2 "2 ^ 52"] rhe_multiple [of 2 "- (2 ^ 52)"]
    by (auto simp: round53_def)
qed

lemma round53_pos: "0 < n \<Longrightarrow> 0 < round53 n"
proof -
  assume "0 < n"
  then have "round53 1 \<le> round53 n" by (intro round53_mono) simp
  then show ?thesis by (simp add: round53_exact)
qed


lemma float64_of_int_exact: "\<bar>n\<bar> \<le> 2 ^ 53 \<Longrightarrow> float64_of_int n = F64 (of_int n)"
  by (simp add: float64_of_int_def round53_exact)


section \<open>Sorting and selection\<close>

lemma mset_insert_back: "mset (insert_back lt x ys) = add_mset x (mset ys)"
  by (induction ys) auto

lemma mset_insertion_loop:
  "mset (foldl (\<lambda>pre x. insert_back lt x pre) acc xs) = mset acc + mset xs"
  by (induction xs arbitrary: acc) (auto simp: mset_insert_back)

lemma mset_sort_Slice: "mset (sort_Slice lt xs) = mset xs"
  by (simp add: sort_Slice_def mset_insertion_loop)

lemma set_sort_Slice: "set (sort_Slice lt xs) = set xs"
  using mset_sort_Slice [of lt xs] by (metis set_mset_mset)

lemma length_sort_Slice: "length (sort_Slice lt xs) = length xs"
  using mset_sort_Slice [of lt xs] by (metis size_mset)

lemma best_loop_member: "fst (best_loop (b, s) ns) \<in> insert b (set ns)"
  by (induction ns arbitrary: b s) (auto simp: Let_def)

lemma SelectBestNode_member: "ns \<noteq> [] \<Longrightarrow> SelectBestNode ns \<in> set ns"
  using best_loop_member by (cases ns) (auto simp: SelectBestNode_def)

text \<open>
  The insertion sort orders the slice when, on its elements, the comparison is asymmetric
  and its negation transitive; \<^verbatim>\<open><\<close> on float64 is, \<^verbatim>\<open>NaN\<close> apart.
\<close>

lemma set_insert_back: "set (insert_back lt x ys) = insert x (set ys)"
  by (induction ys) auto

lemma sorted_insert_back:
  assumes asym: "\<And>a b. P a \<Longrightarrow> P b \<Longrightarrow> lt a b \<Longrightarrow> \<not> lt b a"
    and negtrans: "\<And>a b c. P a \<Longrightarrow> P b \<Longrightarrow> P c \<Longrightarrow> \<not> lt a b \<Longrightarrow> \<not> lt b c \<Longrightarrow> \<not> lt a c"
  shows "P x \<Longrightarrow> \<forall>z \<in> set ys. P z \<Longrightarrow> sorted_wrt (\<lambda>a b. \<not> lt a b) ys
           \<Longrightarrow> sorted_wrt (\<lambda>a b. \<not> lt a b) (insert_back lt x ys)"
proof (induction ys)
  case Nil
  then show ?case by simp
next
  case (Cons y ys)
  show ?case
  proof (cases "lt x y")
    case True
    have "sorted_wrt (\<lambda>a b. \<not> lt a b) (insert_back lt x ys)"
      using Cons by simp
    moreover have "\<not> lt y x"
      using asym [of x y] True Cons.prems by simp
    moreover have "\<forall>z \<in> set ys. \<not> lt y z"
      using Cons.prems(3) by simp
    ultimately show ?thesis
      using True by (simp add: set_insert_back)
  next
    case False
    have "\<not> lt x z" if "z \<in> set ys" for z
    proof -
      have "\<not> lt y z" using that Cons.prems(3) by simp
      then show ?thesis
        using negtrans [of x y z] False that Cons.prems(1,2) by simp
    qed
    then show ?thesis
      using False Cons.prems(3) by simp
  qed
qed

lemma sorted_insertion_loop:
  assumes asym: "\<And>a b. P a \<Longrightarrow> P b \<Longrightarrow> lt a b \<Longrightarrow> \<not> lt b a"
    and negtrans: "\<And>a b c. P a \<Longrightarrow> P b \<Longrightarrow> P c \<Longrightarrow> \<not> lt a b \<Longrightarrow> \<not> lt b c \<Longrightarrow> \<not> lt a c"
  shows "\<forall>z \<in> set acc. P z \<Longrightarrow> \<forall>z \<in> set xs. P z \<Longrightarrow> sorted_wrt (\<lambda>a b. \<not> lt a b) acc
           \<Longrightarrow> sorted_wrt (\<lambda>a b. \<not> lt a b) (foldl (\<lambda>pre x. insert_back lt x pre) acc xs)"
proof (induction xs arbitrary: acc)
  case Nil
  then show ?case by simp
next
  case (Cons x xs)
  have "sorted_wrt (\<lambda>a b. \<not> lt a b) (insert_back lt x acc)"
    using sorted_insert_back [of P lt x acc, OF asym negtrans] Cons.prems by simp
  moreover have "\<forall>z \<in> set (insert_back lt x acc). P z"
    using Cons.prems by (simp add: set_insert_back)
  moreover have "\<forall>z \<in> set xs. P z"
    using Cons.prems by simp
  ultimately show ?case
    using Cons.IH [of "insert_back lt x acc"] by simp
qed

lemma sorted_sort_Slice:
  assumes asym: "\<And>a b. P a \<Longrightarrow> P b \<Longrightarrow> lt a b \<Longrightarrow> \<not> lt b a"
    and negtrans: "\<And>a b c. P a \<Longrightarrow> P b \<Longrightarrow> P c \<Longrightarrow> \<not> lt a b \<Longrightarrow> \<not> lt b c \<Longrightarrow> \<not> lt a c"
    and elems: "\<forall>z \<in> set xs. P z"
  shows "sorted_wrt (\<lambda>a b. \<not> lt b a) (sort_Slice lt xs)"
proof -
  have "sorted_wrt (\<lambda>a b. \<not> lt a b) (foldl (\<lambda>pre x. insert_back lt x pre) [] xs)"
    using sorted_insertion_loop [of P lt "[]" xs, OF asym negtrans] elems by simp
  then show ?thesis
    by (simp add: sort_Slice_def sorted_wrt_rev)
qed

lemma flt_asym: "flt a b \<Longrightarrow> \<not> flt b a"
  by (cases a; cases b) simp_all

lemma flt_negtrans:
  "a \<noteq> NaN \<Longrightarrow> b \<noteq> NaN \<Longrightarrow> c \<noteq> NaN \<Longrightarrow> \<not> flt a b \<Longrightarrow> \<not> flt b c \<Longrightarrow> \<not> flt a c"
  by (cases a; cases b; cases c) simp_all

lemma three_nodes_fit: "sizeof_Node * 3 \<le> maxAlloc"
  by (simp add: sizeof_Node_def maxAlloc_def)

lemma FindKNearestNodes_prefix:
  assumes "0 \<le> k" and "sizeof_Node * k \<le> maxAlloc"
  shows "\<exists>r rest. FindKNearestNodes nodes x y k = Inr r
           \<and> length r = min (nat k) (length (healthy_nodes nodes))
           \<and> mset (r @ rest) = mset (healthy_nodes nodes)
           \<and> ((\<forall>n \<in> set (healthy_nodes nodes). distance_to x y n \<noteq> NaN)
                 \<longrightarrow> nearest_first x y (r @ rest))"
proof -
  define nwd where "nwd = map (\<lambda>node. (node, distance_to x y node)) (healthy_nodes nodes)"
  define s where "s = sort_Slice (\<lambda>a b. flt (snd a) (snd b)) nwd"
  have found: "FindKNearestNodes nodes x y k = Inr (map fst (take (nat k) s))"
    using assms
    by (simp add: FindKNearestNodes_def Let_def healthy_nodes_def distance_to_def s_def nwd_def)
  have elems: "set s = set nwd"
    by (simp add: s_def set_sort_Slice)
  have all: "mset (map fst s) = mset (healthy_nodes nodes)"
    by (simp add: s_def nwd_def mset_sort_Slice image_mset.compositionality comp_def)
  have len: "length (map fst (take (nat k) s)) = min (nat k) (length (healthy_nodes nodes))"
    by (simp add: s_def nwd_def length_sort_Slice min.commute)
  have whole: "map fst (take (nat k) s) @ map fst (drop (nat k) s) = map fst s"
    by (simp flip: map_append)
  have ordered: "nearest_first x y (map fst s)"
    if nan: "\<forall>n \<in> set (healthy_nodes nodes). distance_to x y n \<noteq> NaN"
  proof -
    have ok: "\<forall>p \<in> set nwd. snd p \<noteq> NaN"
      using nan by (auto simp: nwd_def)
    have by_pair: "sorted_wrt (\<lambda>a b. \<not> flt (snd b) (snd a)) s"
      unfolding s_def
    proof (rule sorted_sort_Slice [where P = "\<lambda>p. snd p \<noteq> NaN"])
      show "\<not> flt (snd b) (snd a)" if "flt (snd a) (snd b)" for a b :: "Node \<times> float64"
        using that by (rule flt_asym)
      show "\<not> flt (snd a) (snd c)"
        if "snd a \<noteq> NaN" "snd b \<noteq> NaN" "snd c \<noteq> NaN"
          "\<not> flt (snd a) (snd b)" "\<not> flt (snd b) (snd c)" for a b c :: "Node \<times> float64"
        using that by (rule flt_negtrans)
      show "\<forall>p \<in> set nwd. snd p \<noteq> NaN" by (rule ok)
    qed
    have pairs: "snd p = distance_to x y (fst p)" if "p \<in> set s" for p
      using that by (auto simp: elems nwd_def)
    have "sorted_wrt (\<lambda>a b. \<not> flt (distance_to x y (fst b)) (distance_to x y (fst a))) s"
    proof (rule sorted_wrt_mono_rel
            [of s "\<lambda>a b. \<not> flt (snd b) (snd a)"
                "\<lambda>a b. \<not> flt (distance_to x y (fst b)) (distance_to x y (fst a))",
             OF _ by_pair])
      fix a b :: "Node \<times> float64"
      assume "a \<in> set s" "b \<in> set s" "\<not> flt (snd b) (snd a)"
      then show "\<not> flt (distance_to x y (fst b)) (distance_to x y (fst a))"
        using pairs [of a] pairs [of b] by simp
    qed
    then show ?thesis
      by (simp add: nearest_first_def sorted_wrt_map)
  qed
  have "mset (map fst (take (nat k) s) @ map fst (drop (nat k) s)) = mset (healthy_nodes nodes)"
    using whole all by simp
  moreover have "(\<forall>n \<in> set (healthy_nodes nodes). distance_to x y n \<noteq> NaN)
                 \<longrightarrow> nearest_first x y (map fst (take (nat k) s) @ map fst (drop (nat k) s))"
    using whole ordered by simp
  ultimately show ?thesis
    using found len by blast
qed

lemma FindKNearestNodes_nonneg:
  assumes "0 \<le> k" and "sizeof_Node * k \<le> maxAlloc"
  shows "\<exists>r. FindKNearestNodes nodes x y k = Inr r
           \<and> length r = min (nat k) (length (healthy_nodes nodes))
           \<and> mset r \<subseteq># mset (healthy_nodes nodes)"
proof -
  obtain r rest where r: "FindKNearestNodes nodes x y k = Inr r"
      "length r = min (nat k) (length (healthy_nodes nodes))"
      "mset (r @ rest) = mset (healthy_nodes nodes)"
    using FindKNearestNodes_prefix [OF assms] by blast
  have "mset r \<subseteq># mset (r @ rest)" by simp
  with r show ?thesis by auto
qed

lemma FindKNearestNodes_all:
  assumes "int (length (healthy_nodes nodes)) \<le> k" and "sizeof_Node * k \<le> maxAlloc"
  shows "\<exists>r. FindKNearestNodes nodes x y k = Inr r \<and> mset r = mset (healthy_nodes nodes)
           \<and> ((\<forall>n \<in> set (healthy_nodes nodes). distance_to x y n \<noteq> NaN)
                 \<longrightarrow> nearest_first x y r)"
proof -
  have "0 \<le> k" using assms(1) by linarith
  then obtain r rest where r: "FindKNearestNodes nodes x y k = Inr r"
      "length r = min (nat k) (length (healthy_nodes nodes))"
      "mset (r @ rest) = mset (healthy_nodes nodes)"
      "(\<forall>n \<in> set (healthy_nodes nodes). distance_to x y n \<noteq> NaN)
                 \<longrightarrow> nearest_first x y (r @ rest)"
    using FindKNearestNodes_prefix [OF _ assms(2)] by blast
  have "length r = length (healthy_nodes nodes)"
    using r(2) assms(1) by simp
  moreover have "length (r @ rest) = length (healthy_nodes nodes)"
    using r(3) by (metis size_mset)
  ultimately have "rest = []" by simp
  with r show ?thesis by auto
qed

lemma Status_convertDBNodeToModel:
  "Status (convertDBNodeToModel r) = ''healthy'' \<longleftrightarrow> db_Status r = Some ''healthy''"
  by (cases "db_Status r") (simp_all add: convertDBNodeToModel_def)

lemma healthy_nodes_convert:
  "healthy_nodes (map convertDBNodeToModel rows)
     = map convertDBNodeToModel (filter (\<lambda>r. db_Status r = Some ''healthy'') rows)"
  by (induction rows) (simp_all add: healthy_nodes_def Status_convertDBNodeToModel)

lemma healthy_nodes_idem: "healthy_nodes (healthy_nodes nodes) = healthy_nodes nodes"
  by (simp add: healthy_nodes_def)

lemma GetHealthyNodes_ok: "failure d = None \<Longrightarrow> GetHealthyNodes d = Inr (healthy_rows d)"
  by (simp add: GetHealthyNodes_def healthy_rows_def)

lemma healthy_models: "healthy_nodes (map convertDBNodeToModel (healthy_rows d))
    = map convertDBNodeToModel (healthy_rows d)"
  by (simp add: healthy_nodes_convert healthy_rows_def)

text \<open>What \<^verbatim>\<open>RouteRequest\<close> returns when the query succeeds.\<close>

lemma RouteRequest_ok:
  assumes "failure d = None"
  shows "\<exists>r. FindKNearestNodes (map convertDBNodeToModel (healthy_rows d))
                (Location_X c) (Location_Y c) 3 = Inr r
           \<and> length r = min 3 (length (healthy_rows d))
           \<and> set r \<subseteq> convertDBNodeToModel ` set (healthy_rows d)
           \<and> RouteRequest d rid c = Inr (if r = [] then None else Some (SelectBestNode r))"
proof -
  obtain r where r: "FindKNearestNodes (map convertDBNodeToModel (healthy_rows d))
                (Location_X c) (Location_Y c) 3 = Inr r"
      "length r = min (nat 3) (length (healthy_nodes (map convertDBNodeToModel (healthy_rows d))))"
      "mset r \<subseteq># mset (healthy_nodes (map convertDBNodeToModel (healthy_rows d)))"
    using FindKNearestNodes_nonneg [of 3, OF _ three_nodes_fit] by (metis zero_le_numeral)
  have len: "length r = min 3 (length (healthy_rows d))"
    using r(2) by (simp add: healthy_models)
  have "set r \<subseteq> set (map convertDBNodeToModel (healthy_rows d))"
    using r(3) by (metis healthy_models set_mset_mono set_mset_mset)
  then have sub: "set r \<subseteq> convertDBNodeToModel ` set (healthy_rows d)" by simp
  have "RouteRequest d rid c = Inr (if r = [] then None else Some (SelectBestNode r))"
    using assms r(1) by (simp add: RouteRequest_def GetHealthyNodes_ok)
  with r(1) len sub show ?thesis by blast
qed

lemma SelectBestNode_single: "SelectBestNode [n] = n"
  by (simp add: SelectBestNode_def)

lemma RouteRequest_single:
  assumes "failure d = None" and "healthy_rows d = [r]"
  shows "RouteRequest d rid c = Inr (Some (convertDBNodeToModel r))"
proof -
  obtain ns where ns: "length ns = min 3 (length (healthy_rows d))"
      "set ns \<subseteq> convertDBNodeToModel ` set (healthy_rows d)"
      "RouteRequest d rid c = Inr (if ns = [] then None else Some (SelectBestNode ns))"
    using RouteRequest_ok [OF assms(1)] by blast
  from ns(1) assms(2) obtain n where "ns = [n]"
    by (cases ns) auto
  with ns(2,3) assms(2) show ?thesis
    by (simp add: SelectBestNode_single)
qed


section \<open>The load score\<close>

text \<open>
  For evaluating a score: \<open>score_defs\<close> where the integers are at most \<open>2^53\<close>, and so
  converted exactly, \<open>score_unfold\<close> otherwise.
\<close>

lemmas score_defs = CalculateLoadScore_def float64_of_int_exact signed_inf_def
  cpuWeight_def memWeight_def connWeight_def

lemmas score_unfold = CalculateLoadScore_def float64_of_int_def signed_inf_def
  cpuWeight_def memWeight_def connWeight_def

lemma N1_fields:
  "Status N1 = ''healthy''" "Capacity N1 = 100" "ActiveConnections N1 = 0"
  "CPUUsage N1 = F64 10" "MemoryUsage N1 = F64 10"
  "LocationX N1 = F64 0" "LocationY N1 = F64 0"
  by (simp_all add: N1_def N1_row_def convertDBNodeToModel_def or_zero_def)

lemma N2_fields:
  "Status N2 = ''healthy''" "Capacity N2 = 100" "ActiveConnections N2 = 90"
  "CPUUsage N2 = F64 90" "MemoryUsage N2 = F64 90"
  "LocationX N2 = F64 10" "LocationY N2 = F64 10"
  by (simp_all add: N2_def N2_row_def convertDBNodeToModel_def or_zero_def)




text \<open>
  C8.  With a capacity above 0 and the other fields fixed, more active connections never
  give a smaller load score; and when the cpu and memory readings are finite numbers, the
  score with \<open>c1\<close> connections is less than or equal to the score with \<open>c2 \<ge> c1\<close>.
\<close>

theorem CalculateLoadScore_monotone:
  assumes "0 < Capacity node" and "c1 \<le> c2"
  shows "\<not> flt (CalculateLoadScore (node\<lparr>ActiveConnections := c2\<rparr>))
               (CalculateLoadScore (node\<lparr>ActiveConnections := c1\<rparr>))
         \<and> (is_finite (CPUUsage node) \<and> is_finite (MemoryUsage node) \<longrightarrow>
              fle (CalculateLoadScore (node\<lparr>ActiveConnections := c1\<rparr>))
                  (CalculateLoadScore (node\<lparr>ActiveConnections := c2\<rparr>)))"
proof -
  have pos: "0 < real_of_int (round53 (Capacity node))"
    using assms(1) by (simp add: round53_pos)
  have "real_of_int (round53 c1) \<le> real_of_int (round53 c2)"
    using assms(2) by (simp add: round53_mono)
  then have "real_of_int (round53 c1) / real_of_int (round53 (Capacity node))
               \<le> real_of_int (round53 c2) / real_of_int (round53 (Capacity node))"
    using pos by (simp add: divide_right_mono)
  then show ?thesis
    using pos
    by (cases "CPUUsage node"; cases "MemoryUsage node") (simp_all add: score_unfold)
qed

theorem CalculateLoadScore_monotone_witness:
  "0 < Capacity N1 \<and> (10::int) \<le> 150
   \<and> is_finite (CPUUsage N1) \<and> is_finite (MemoryUsage N1)
   \<and> CalculateLoadScore (N1\<lparr>ActiveConnections := 10\<rparr>) = F64 0.1
   \<and> CalculateLoadScore (N1\<lparr>ActiveConnections := 150\<rparr>) = F64 0.52
   \<and> fle (CalculateLoadScore (N1\<lparr>ActiveConnections := 10\<rparr>))
          (CalculateLoadScore (N1\<lparr>ActiveConnections := 150\<rparr>))"
  using CalculateLoadScore_monotone [of N1 10 150]
  by (simp add: N1_fields score_defs)


section \<open>Routing\<close>

text \<open>
  C1.  When the query succeeds and the table holds at least one row of status
  \<^verbatim>\<open>healthy\<close>, \<^verbatim>\<open>RouteRequest\<close> returns a node, and that node is one of the healthy rows of
  the table.  And whenever \<^verbatim>\<open>RouteRequest\<close> returns a node at all, its status is
  \<^verbatim>\<open>healthy\<close>, not \<^verbatim>\<open>inactive\<close>, \<^verbatim>\<open>active\<close> or \<^verbatim>\<open>unhealthy\<close>.
\<close>

theorem RouteRequest_selects_healthy:
  assumes "failure d = None"
    and "\<exists>r \<in> set (nodes_table d). db_Status r = Some ''healthy''"
  shows "(\<exists>r \<in> set (nodes_table d).
            db_Status r = Some ''healthy''
            \<and> RouteRequest d requestID coordinates = Inr (Some (convertDBNodeToModel r))
            \<and> Status (convertDBNodeToModel r) = ''healthy'')
         \<and> (\<forall>d' requestID' coordinates' n.
               RouteRequest d' requestID' coordinates' = Inr (Some n) \<longrightarrow>
                 Status n = ''healthy'' \<and> Status n \<noteq> ''inactive''
                 \<and> Status n \<noteq> ''active'' \<and> Status n \<noteq> ''unhealthy'')"
proof -
  have selected: "\<exists>r \<in> set (healthy_rows e). n = convertDBNodeToModel r"
    if "RouteRequest e rid c = Inr (Some n)" for e rid c n
  proof (cases "failure e")
    case None
    then obtain ns where ns: "set ns \<subseteq> convertDBNodeToModel ` set (healthy_rows e)"
        "RouteRequest e rid c = Inr (if ns = [] then None else Some (SelectBestNode ns))"
      using RouteRequest_ok [of e c rid] by blast
    with that have "ns \<noteq> []" "n = SelectBestNode ns"
      by (auto split: if_splits)
    then have "n \<in> set ns"
      using SelectBestNode_member by blast
    with ns(1) show ?thesis by blast
  next
    case (Some err)
    with that show ?thesis
      by (simp add: RouteRequest_def GetHealthyNodes_def)
  qed
  have never: "Status n = ''healthy'' \<and> Status n \<noteq> ''inactive''
                 \<and> Status n \<noteq> ''active'' \<and> Status n \<noteq> ''unhealthy''"
    if "RouteRequest e rid c = Inr (Some n)" for e rid c n
  proof -
    from selected [OF that] have "Status n = ''healthy''"
      by (auto simp: healthy_rows_def Status_convertDBNodeToModel)
    then show ?thesis by simp
  qed
  obtain ns where ns: "length ns = min 3 (length (healthy_rows d))"
      "RouteRequest d requestID coordinates
         = Inr (if ns = [] then None else Some (SelectBestNode ns))"
    using RouteRequest_ok [OF assms(1)] by blast
  have "healthy_rows d \<noteq> []"
    using assms(2) by (auto simp: healthy_rows_def filter_empty_conv)
  then have "ns \<noteq> []"
    using ns(1) by (cases "healthy_rows d") auto
  then have route: "RouteRequest d requestID coordinates = Inr (Some (SelectBestNode ns))"
    using ns(2) by simp
  then obtain r where r: "r \<in> set (healthy_rows d)" "SelectBestNode ns = convertDBNodeToModel r"
    using selected by blast
  have "r \<in> set (nodes_table d)" "db_Status r = Some ''healthy''"
    using r(1) by (simp_all add: healthy_rows_def)
  moreover have "RouteRequest d requestID coordinates = Inr (Some (convertDBNodeToModel r))"
    using route r(2) by simp
  moreover have "Status (convertDBNodeToModel r) = ''healthy''"
    using \<open>db_Status r = Some ''healthy''\<close> by (simp add: Status_convertDBNodeToModel)
  ultimately show ?thesis
    using never by blast
qed

theorem RouteRequest_selects_healthy_witness:
  "failure \<lparr> nodes_table = [N3_row ''unhealthy'', N2_row], failure = None \<rparr> = None
   \<and> healthy_rows \<lparr> nodes_table = [N3_row ''unhealthy'', N2_row], failure = None \<rparr> = [N2_row]
   \<and> RouteRequest \<lparr> nodes_table = [N3_row ''unhealthy'', N2_row], failure = None \<rparr>
        ''req-1'' origin_request = Inr (Some N2)
   \<and> Status N2 = ''healthy''
   \<and> (\<exists>r \<in> set (nodes_table \<lparr> nodes_table = [N3_row ''unhealthy'', N2_row], failure = None \<rparr>).
         db_Status r = Some ''healthy''
         \<and> RouteRequest \<lparr> nodes_table = [N3_row ''unhealthy'', N2_row], failure = None \<rparr>
              ''req-1'' origin_request = Inr (Some (convertDBNodeToModel r)))"
proof -
  have rows: "healthy_rows \<lparr> nodes_table = [N3_row ''unhealthy'', N2_row], failure = None \<rparr>
                = [N2_row]"
    by (simp add: healthy_rows_def N2_row_def N3_row_def)
  have route: "RouteRequest \<lparr> nodes_table = [N3_row ''unhealthy'', N2_row], failure = None \<rparr>
        ''req-1'' origin_request = Inr (Some N2)"
    using RouteRequest_single [OF _ rows] by (simp add: N2_def)
  have status: "db_Status N2_row = Some ''healthy''"
    by (simp add: N2_row_def)
  then have healthy: "\<exists>r \<in> set (nodes_table
                   \<lparr> nodes_table = [N3_row ''unhealthy'', N2_row], failure = None \<rparr>).
                  db_Status r = Some ''healthy''"
    by simp
  show ?thesis
    using RouteRequest_selects_healthy
            [of "\<lparr> nodes_table = [N3_row ''unhealthy'', N2_row], failure = None \<rparr>"
                "''req-1''" origin_request, OF _ healthy]
    by (simp add: rows route status N2_fields(1) N2_def [symmetric])
qed

text \<open>
  C2.  When the query succeeds and no row has status \<^verbatim>\<open>healthy\<close> (an empty table
  included), \<^verbatim>\<open>RouteRequest\<close> returns \<^verbatim>\<open>(nil, nil)\<close>: no node, no error, no panic.  The
  handler then answers 503 "No healthy nodes available" and broadcasts nothing, unless the
  body failed to bind, which it answers with 400; the two status codes differ.
\<close>

theorem RouteRequest_unavailable:
  assumes "failure d = None"
    and "\<forall>r \<in> set (nodes_table d). db_Status r \<noteq> Some ''healthy''"
  shows "RouteRequest d requestID coordinates = Inr None
         \<and> PublicHandler_RouteRequest d now body =
             Inr (case bind_RouteRequest body of
                    Inl err \<Rightarrow> (\<lparr> code = StatusBadRequest, payload = BindErrorBody err \<rparr>, [])
                  | Inr req \<Rightarrow> (\<lparr> code = StatusServiceUnavailable,
                                  payload = ErrorBody ''No healthy nodes available'' \<rparr>, []))
         \<and> StatusServiceUnavailable \<noteq> StatusBadRequest"
proof -
  have empty: "healthy_rows d = []"
    using assms(2) by (simp add: healthy_rows_def filter_empty_conv)
  have none: "RouteRequest d rid c = Inr None" for rid c
    using RouteRequest_ok [OF assms(1), of c rid] by (auto simp: empty)
  show ?thesis
    by (simp add: none PublicHandler_RouteRequest_def split: sum.splits)
qed

theorem RouteRequest_unavailable_witness:
  "failure \<lparr> nodes_table = [N3_row ''unhealthy'', N3_row ''active''], failure = None \<rparr> = None
   \<and> healthy_rows \<lparr> nodes_table = [N3_row ''unhealthy'', N3_row ''active''], failure = None \<rparr>
       = []
   \<and> RouteRequest \<lparr> nodes_table = [N3_row ''unhealthy'', N3_row ''active''], failure = None \<rparr>
        ''req-1'' origin_request = Inr None
   \<and> PublicHandler_RouteRequest
        \<lparr> nodes_table = [N3_row ''unhealthy'', N3_row ''active''], failure = None \<rparr>
        7 (Some route_body) =
        Inr (\<lparr> code = 503, payload = ErrorBody ''No healthy nodes available'' \<rparr>, [])"
  using RouteRequest_unavailable
          [of "\<lparr> nodes_table = [N3_row ''unhealthy'', N3_row ''active''], failure = None \<rparr>"
              "''req-1''" origin_request 7 "Some route_body"]
  by (simp add: bind_RouteRequest_def route_body_def origin_request_def
        required_string_def required_Location_def N3_row_def healthy_rows_def)


text \<open>Evaluating the scenario: distances, scores, the two orders of the rows.\<close>

lemma scenario_distances:
  "CalculateDistance (F64 1) (F64 1) (LocationX N1) (LocationY N1) = F64 (sqrt 2)"
  "CalculateDistance (F64 1) (F64 1) (LocationX N2) (LocationY N2) = F64 (sqrt 162)"
  by (simp_all add: N1_fields N2_fields CalculateDistance_def fsub_def)

lemma scenario_scores:
  "CalculateLoadScore N1 = F64 0.07" "CalculateLoadScore N2 = F64 0.9"
  by (simp_all add: N1_fields N2_fields score_defs)

lemma FindKNearestNodes_healthy_only:
  "FindKNearestNodes nodes x y k = FindKNearestNodes (healthy_nodes nodes) x y k"
  by (simp add: FindKNearestNodes_def healthy_nodes_def)

lemma scenario_nearest:
  "FindKNearestNodes [N1, N2] (F64 1) (F64 1) 2 = Inr [N1, N2]"
  "FindKNearestNodes [N2, N1] (F64 1) (F64 1) 2 = Inr [N1, N2]"
  "FindKNearestNodes [N1, N2] (F64 1) (F64 1) 3 = Inr [N1, N2]"
  "FindKNearestNodes [N2, N1] (F64 1) (F64 1) 3 = Inr [N1, N2]"
  by (simp_all add: FindKNearestNodes_def Let_def N1_fields(1) N2_fields(1)
        scenario_distances sort_Slice_def sizeof_Node_def maxAlloc_def)

lemma scenario_best: "SelectBestNode [N1, N2] = N1"
  by (simp add: SelectBestNode_def calculateLoadScore_def scenario_scores)

text \<open>
  C3.  With exactly the two healthy rows N1 and N2 of the scenario in the table, in
  either order and whatever other rows there are, routing the coordinate (1,1) returns
  N1: it is the result of \<^verbatim>\<open>RouteRequest\<close>, and of selecting the best of the 2 nearest
  nodes.  N1 is both nearer and less loaded.
\<close>

theorem scenario_routes_to_N1:
  assumes "failure d = None"
    and "healthy_rows d = [N1_row, N2_row] \<or> healthy_rows d = [N2_row, N1_row]"
  shows "RouteRequest d requestID origin_request = Inr (Some N1)
         \<and> (\<exists>nearest. FindKNearestNodes (map convertDBNodeToModel (nodes_table d))
                          (F64 1) (F64 1) 2 = Inr nearest
                        \<and> SelectBestNode nearest = N1)
         \<and> flt (CalculateDistance (F64 1) (F64 1) (LocationX N1) (LocationY N1))
                (CalculateDistance (F64 1) (F64 1) (LocationX N2) (LocationY N2))
         \<and> flt (CalculateLoadScore N1) (CalculateLoadScore N2)"
proof -
  have models: "map convertDBNodeToModel (healthy_rows d) = [N1, N2]
                \<or> map convertDBNodeToModel (healthy_rows d) = [N2, N1]"
    using assms(2) by (auto simp: N1_def N2_def)
  have "healthy_nodes (map convertDBNodeToModel (nodes_table d))
          = map convertDBNodeToModel (healthy_rows d)"
    by (simp add: healthy_nodes_convert healthy_rows_def)
  then have two: "FindKNearestNodes (map convertDBNodeToModel (nodes_table d)) (F64 1) (F64 1) 2
                    = Inr [N1, N2]"
    using models FindKNearestNodes_healthy_only [of "map convertDBNodeToModel (nodes_table d)"]
    by (auto simp: scenario_nearest)
  have "RouteRequest d requestID origin_request = Inr (Some N1)"
    using models assms(1)
    by (auto simp: RouteRequest_def GetHealthyNodes_ok origin_request_def scenario_nearest
          scenario_best)
  with two show ?thesis
    by (simp add: scenario_best scenario_distances scenario_scores)
qed

theorem scenario_routes_to_N1_witness:
  "failure \<lparr> nodes_table = [N3_row ''unhealthy'', N2_row, N1_row], failure = None \<rparr> = None
   \<and> healthy_rows \<lparr> nodes_table = [N3_row ''unhealthy'', N2_row, N1_row], failure = None \<rparr>
       = [N2_row, N1_row]
   \<and> RouteRequest \<lparr> nodes_table = [N3_row ''unhealthy'', N2_row, N1_row], failure = None \<rparr>
       ''req-1'' origin_request = Inr (Some N1)"
  using scenario_routes_to_N1
          [of "\<lparr> nodes_table = [N3_row ''unhealthy'', N2_row, N1_row], failure = None \<rparr>"
              "''req-1''"]
  by (simp add: healthy_rows_def N1_row_def N2_row_def N3_row_def)


section \<open>The number of candidates\<close>

text \<open>
  C5, as the code has it.  \<^verbatim>\<open>FindKNearestNodes\<close> given \<open>k = 0\<close> returns no candidate
  although a healthy node exists, where \<open>k = 1\<close> returns it; a negative \<open>k\<close> panics.  So a
  \<open>k \<le> 0\<close> is not treated as 1.  And a \<open>k\<close> larger than the number of healthy nodes does
  not always give them all: the largest \<^verbatim>\<open>int\<close> panics too.
\<close>

theorem FindKNearestNodes_zero_counterexample:
  "FindKNearestNodes [N1] (F64 1) (F64 1) 0 = Inr []
   \<and> FindKNearestNodes [N1] (F64 1) (F64 1) 1 = Inr [N1]
   \<and> FindKNearestNodes [N1] (F64 1) (F64 1) (- 1) = Inl (RuntimePanic ''makeslice: cap out of range'')
   \<and> FindKNearestNodes [N1] (F64 1) (F64 1) (2 ^ 63 - 1)
       = Inl (RuntimePanic ''makeslice: cap out of range'')"
  by (simp add: FindKNearestNodes_def Let_def N1_fields(1) sort_Slice_def sizeof_Node_def
        maxAlloc_def)

text \<open>
  C5, amended.  \<^verbatim>\<open>RouteRequest\<close> takes no \<open>k\<close>: it selects among the candidates that
  \<^verbatim>\<open>FindKNearestNodes\<close> returns for \<open>k = 3\<close>.  For a \<open>k \<ge> 0\<close> that \<^verbatim>\<open>make\<close> accepts,
  \<^verbatim>\<open>FindKNearestNodes\<close> returns the nearest of the healthy nodes, as many as the smaller of
  \<open>k\<close> and their number: the result, followed by the healthy nodes left out, is all the
  healthy nodes, in order of distance when no distance is \<^verbatim>\<open>NaN\<close>.  So it returns none
  for \<open>k = 0\<close>, and all healthy nodes, nearest first, for every such \<open>k\<close> that is at least
  their number.
\<close>

theorem FindKNearestNodes_candidates:
  "(0 \<le> k \<and> sizeof_Node * k \<le> maxAlloc \<longrightarrow>
      (\<exists>r rest. FindKNearestNodes nodes x y k = Inr r
           \<and> length r = min (nat k) (length (healthy_nodes nodes))
           \<and> mset (r @ rest) = mset (healthy_nodes nodes)
           \<and> ((\<forall>n \<in> set (healthy_nodes nodes). distance_to x y n \<noteq> NaN)
                 \<longrightarrow> nearest_first x y (r @ rest))))
   \<and> FindKNearestNodes nodes x y 0 = Inr []
   \<and> (int (length (healthy_nodes nodes)) \<le> k' \<and> sizeof_Node * k' \<le> maxAlloc \<longrightarrow>
        (\<exists>r. FindKNearestNodes nodes x y k' = Inr r \<and> mset r = mset (healthy_nodes nodes)
             \<and> ((\<forall>n \<in> set (healthy_nodes nodes). distance_to x y n \<noteq> NaN)
                   \<longrightarrow> nearest_first x y r)))
   \<and> (failure d = None \<longrightarrow>
        (\<exists>r. FindKNearestNodes (map convertDBNodeToModel (nodes_table d))
                (Location_X c) (Location_Y c) 3 = Inr r
             \<and> RouteRequest d requestID c = Inr (if r = [] then None else Some (SelectBestNode r))))"
proof -
  have zero: "FindKNearestNodes nodes x y 0 = Inr []"
    by (simp add: FindKNearestNodes_def sizeof_Node_def maxAlloc_def)
  have "FindKNearestNodes (map convertDBNodeToModel (nodes_table d)) x' y' 3
          = FindKNearestNodes (map convertDBNodeToModel (healthy_rows d)) x' y' 3" for x' y'
    using FindKNearestNodes_healthy_only [of "map convertDBNodeToModel (nodes_table d)"]
    by (simp add: healthy_nodes_convert healthy_rows_def)
  then have three: "\<exists>r. FindKNearestNodes (map convertDBNodeToModel (nodes_table d))
                (Location_X c) (Location_Y c) 3 = Inr r
             \<and> RouteRequest d requestID c = Inr (if r = [] then None else Some (SelectBestNode r))"
    if "failure d = None"
    using RouteRequest_ok [OF that, of c requestID] by auto
  show ?thesis
    using FindKNearestNodes_prefix [of k nodes x y] FindKNearestNodes_all [of nodes k' x y]
      zero three
    by blast
qed

theorem FindKNearestNodes_candidates_witness:
  "(0::int) \<le> 1 \<and> sizeof_Node * 1 \<le> maxAlloc
   \<and> int (length (healthy_nodes [N2, N1])) \<le> 5 \<and> sizeof_Node * 5 \<le> maxAlloc
   \<and> distance_to (F64 1) (F64 1) N1 = F64 (sqrt 2)
   \<and> distance_to (F64 1) (F64 1) N2 = F64 (sqrt 162)
   \<and> failure \<lparr> nodes_table = [N2_row, N1_row], failure = None \<rparr> = None
   \<and> FindKNearestNodes [N2, N1] (F64 1) (F64 1) 1 = Inr [N1]
   \<and> FindKNearestNodes [N2, N1] (F64 1) (F64 1) 5 = Inr [N1, N2]
   \<and> (\<exists>rest. mset ([N1] @ rest) = mset (healthy_nodes [N2, N1])
         \<and> nearest_first (F64 1) (F64 1) ([N1] @ rest))
   \<and> nearest_first (F64 1) (F64 1) [N1, N2]
   \<and> (\<exists>r. FindKNearestNodes
              (map convertDBNodeToModel
                 (nodes_table \<lparr> nodes_table = [N2_row, N1_row], failure = None \<rparr>))
              (Location_X origin_request) (Location_Y origin_request) 3 = Inr r
            \<and> RouteRequest \<lparr> nodes_table = [N2_row, N1_row], failure = None \<rparr> ''req-1''
                 origin_request = Inr (if r = [] then None else Some (SelectBestNode r)))"
proof -
  have one: "FindKNearestNodes [N2, N1] (F64 1) (F64 1) 1 = Inr [N1]"
    and five: "FindKNearestNodes [N2, N1] (F64 1) (F64 1) 5 = Inr [N1, N2]"
    by (simp_all add: FindKNearestNodes_def Let_def N1_fields(1) N2_fields(1)
          scenario_distances sort_Slice_def sizeof_Node_def maxAlloc_def)
  have dist: "distance_to (F64 1) (F64 1) N1 = F64 (sqrt 2)"
      "distance_to (F64 1) (F64 1) N2 = F64 (sqrt 162)"
    by (simp_all add: distance_to_def scenario_distances)
  have healthy: "healthy_nodes [N2, N1] = [N2, N1]"
    by (simp add: healthy_nodes_def N1_fields(1) N2_fields(1))
  show ?thesis
    using FindKNearestNodes_candidates
            [of 1 "[N2, N1]" "F64 1" "F64 1" 5
                "\<lparr> nodes_table = [N2_row, N1_row], failure = None \<rparr>" origin_request "''req-1''"]
    by (auto simp: one five dist healthy sizeof_Node_def maxAlloc_def)
qed


section \<open>Registration\<close>

lemmas bind_defs = bind_CreateNodeRequest_def bind_RegisterNodeRequest_def
  bind_RouteRequest_def required_string_def required_Location_def

text \<open>
  C6, as the code has it.  A \<^verbatim>\<open>CreateNode\<close> request with capacity 0 does not fail
  validation: it is answered 201 with a node of capacity 100, which is broadcast.
\<close>

theorem CreateNode_zero_capacity_counterexample:
  "AdminHandler_CreateNode 7 5 6 (Some (create_body 0)) =
     (\<lparr> code = 201,
        payload = NodeBody
          \<lparr> ID = 7, Name = ''edge-1'', LocationX = F64 3, LocationY = F64 4,
            Endpoint = ''http://edge-1:9000'', Capacity = 100, Status = ''inactive'',
            CPUUsage = F64 0, MemoryUsage = F64 0, ActiveConnections = 0,
            LastHealthCheck = None, CreatedAt = 5, UpdatedAt = 6 \<rparr> \<rparr>,
      [\<lparr> msg_Type = ''node_created'',
         msg_Data = JNode
          \<lparr> ID = 7, Name = ''edge-1'', LocationX = F64 3, LocationY = F64 4,
            Endpoint = ''http://edge-1:9000'', Capacity = 100, Status = ''inactive'',
            CPUUsage = F64 0, MemoryUsage = F64 0, ActiveConnections = 0,
            LastHealthCheck = None, CreatedAt = 5, UpdatedAt = 6 \<rparr> \<rparr>])"
  by (simp add: AdminHandler_CreateNode_def bind_defs create_body_def zero_Node_def Let_def)

text \<open>
  C6, amended.  A registration request with an empty name or an empty endpoint is
  answered 400 and no node is built or broadcast, by either handler.  A request that binds
  and whose capacity is not negative is answered 201 with a node of capacity above 0: the
  capacity of the request, or the default 100 when that is 0.  The public
  \<^verbatim>\<open>RegisterNode\<close> reads no capacity and always gives 100.
\<close>

theorem registration_validation:
  "((new_Name creq = [] \<or> new_Endpoint creq = []) \<longrightarrow>
      AdminHandler_CreateNode u t1 t2 (Some creq) =
        (\<lparr> code = StatusBadRequest, payload = BindErrorBody RequiredFieldMissing \<rparr>, []))
   \<and> ((reg_Name rreq = [] \<or> reg_Endpoint rreq = []) \<longrightarrow>
      PublicHandler_RegisterNode u t1 t2 (Some rreq) =
        (\<lparr> code = StatusBadRequest, payload = BindErrorBody RequiredFieldMissing \<rparr>, []))
   \<and> (bind_CreateNodeRequest body = Inr req \<and> 0 \<le> new_Capacity req \<longrightarrow>
        (\<exists>n. AdminHandler_CreateNode u t1 t2 body =
               (\<lparr> code = StatusCreated, payload = NodeBody n \<rparr>,
                [\<lparr> msg_Type = ''node_created'', msg_Data = JNode n \<rparr>])
             \<and> Capacity n = (if new_Capacity req = 0 then 100 else new_Capacity req)
             \<and> 0 < Capacity n))
   \<and> (bind_RegisterNodeRequest body' = Inr req' \<longrightarrow>
        (\<exists>n. PublicHandler_RegisterNode u t1 t2 body' =
               (\<lparr> code = StatusCreated, payload = NodeBody n \<rparr>,
                [\<lparr> msg_Type = ''node_registered'', msg_Data = JNode n \<rparr>])
             \<and> Capacity n = 100))"
  by (simp add: AdminHandler_CreateNode_def PublicHandler_RegisterNode_def Let_def
        bind_CreateNodeRequest_def bind_RegisterNodeRequest_def required_string_def)

theorem registration_validation_witness:
  "new_Name ((create_body 5)\<lparr>new_Name := []\<rparr>) = []
   \<and> reg_Endpoint (register_body ''edge-2'' []) = []
   \<and> bind_CreateNodeRequest (Some (create_body 0)) = Inr (create_body 0)
   \<and> 0 \<le> new_Capacity (create_body 0)
   \<and> bind_RegisterNodeRequest (Some (register_body ''edge-2'' ''http://edge-2:9000''))
       = Inr (register_body ''edge-2'' ''http://edge-2:9000'')
   \<and> AdminHandler_CreateNode 7 5 6 (Some ((create_body 5)\<lparr>new_Name := []\<rparr>)) =
        (\<lparr> code = 400, payload = BindErrorBody RequiredFieldMissing \<rparr>, [])
   \<and> PublicHandler_RegisterNode 7 5 6 (Some (register_body ''edge-2'' [])) =
        (\<lparr> code = 400, payload = BindErrorBody RequiredFieldMissing \<rparr>, [])
   \<and> (\<exists>n. fst (AdminHandler_CreateNode 7 5 6 (Some (create_body 0)))
              = \<lparr> code = 201, payload = NodeBody n \<rparr> \<and> Capacity n = 100)
   \<and> (\<exists>n. fst (PublicHandler_RegisterNode 7 5 6
                   (Some (register_body ''edge-2'' ''http://edge-2:9000'')))
              = \<lparr> code = 201, payload = NodeBody n \<rparr> \<and> Capacity n = 100)"
  using registration_validation
          [of "(create_body 5)\<lparr>new_Name := []\<rparr>" 7 5 6 "register_body ''edge-2'' []"
              "Some (create_body 0)" "create_body 0"
              "Some (register_body ''edge-2'' ''http://edge-2:9000'')"
              "register_body ''edge-2'' ''http://edge-2:9000''"]
  by (auto simp: bind_defs create_body_def register_body_def)


section \<open>The health monitor\<close>

lemma database_checkNode: "database (checkNode env s node) = database s"
  by (simp add: checkNode_def)

lemma database_check_each: "database (check_each envs i s nodes) = database s"
  by (induction nodes arbitrary: i s) (simp_all add: database_checkNode)

lemma database_checkAllNodes: "database (checkAllNodes envs s) = database s"
  by (simp add: checkAllNodes_def database_check_each split: sum.splits)

lemma database_Start_ticks: "database (Start_ticks envs n s) = database s"
  by (induction n) (simp_all add: database_checkAllNodes)

text \<open>
  C7 on the code.  No number of ticks of the monitor changes a row of the table:
  \<^verbatim>\<open>checkNode\<close> probes nothing, counts nothing and writes no status.  After as many ticks
  as the failure threshold of the default configuration, 3, a node of status \<^verbatim>\<open>active\<close> is
  still \<^verbatim>\<open>active\<close>, and the three messages broadcast carry the status \<^verbatim>\<open>healthy\<close>.
\<close>

theorem monitor_never_changes_status:
  "database (Start_ticks envs n s) = database s
   \<and> FailureThreshold default_HealthConfig = 3
   \<and> GetAllNodes (database (Start_ticks ready_envs 3
         \<lparr> database = \<lparr> nodes_table = [N3_row ''active''], failure = None \<rparr>,
           broadcast = [] \<rparr>))
       = Inr [N3_row ''active'']
   \<and> map (\<lambda>m. (msg_Type m, case msg_Data m of JObject fs \<Rightarrow> map_of fs ''status''))
        (broadcast (Start_ticks ready_envs 3
           \<lparr> database = \<lparr> nodes_table = [N3_row ''active''], failure = None \<rparr>,
             broadcast = [] \<rparr>))
       = [(''node_health_updated'', Some (JString ''healthy'')),
          (''node_health_updated'', Some (JString ''healthy'')),
          (''node_health_updated'', Some (JString ''healthy''))]"
  by (simp add: database_Start_ticks default_HealthConfig_def GetAllNodes_def
        numeral_3_eq_3 checkAllNodes_def checkNode_def ready_envs_def)


section \<open>The capacity as a divisor\<close>

lemma score_finite:
  assumes "0 < Capacity node" and "is_finite (CPUUsage node)" and "is_finite (MemoryUsage node)"
  shows "is_finite (CalculateLoadScore node)"
proof -
  have "0 < real_of_int (round53 (Capacity node))"
    using assms(1) by (simp add: round53_pos)
  then show ?thesis
    using assms(2,3)
    by (cases "CPUUsage node"; cases "MemoryUsage node") (simp_all add: score_unfold)
qed

lemma score_not_finite:
  assumes "Capacity node = 0"
  shows "\<not> is_finite (CalculateLoadScore node)"
  using assms
  by (cases "CPUUsage node"; cases "MemoryUsage node") (simp_all add: score_unfold round53_zero)

text \<open>
  C10.  The division by the capacity in \<^verbatim>\<open>CalculateLoadScore\<close> is unguarded.  With a
  capacity above 0 and finite cpu and memory readings the score is a finite number.  With
  capacity 0 it is not: the division yields an infinity or \<^verbatim>\<open>NaN\<close>.  Nothing on the
  routing path looks at the capacity: a single healthy row is routed to whatever its
  capacity, and the handler computes its load score and broadcasts it.  When the capacity
  is 0 that score is not finite, and the response, which cannot be encoded, is the status
  200 with an empty body.  \<^verbatim>\<open>CreateNode\<close> replaces only the capacity 0, by 100; a negative
  capacity is kept as it is.
\<close>

theorem capacity_is_unchecked:
  "(0 < Capacity node \<and> is_finite (CPUUsage node) \<and> is_finite (MemoryUsage node) \<longrightarrow>
      is_finite (CalculateLoadScore node))
   \<and> (Capacity node' = 0 \<longrightarrow> \<not> is_finite (CalculateLoadScore node'))
   \<and> (failure d = None \<and> healthy_rows d = [r] \<and> bind_RouteRequest body = Inr req \<longrightarrow>
        RouteRequest d (req_RequestID req) (req_Coordinates req)
          = Inr (Some (convertDBNodeToModel r))
        \<and> (\<exists>answer fields.
              PublicHandler_RouteRequest d now body =
                Inr (\<lparr> code = StatusOK, payload = answer \<rparr>,
                     [\<lparr> msg_Type = ''route_request'', msg_Data = JObject fields \<rparr>])
              \<and> map_of fields ''load_score''
                    = Some (JFloat (CalculateLoadScore (convertDBNodeToModel r)))
              \<and> (or_zero (db_Capacity r) = 0 \<longrightarrow>
                    \<not> is_finite (CalculateLoadScore (convertDBNodeToModel r))
                    \<and> answer = EmptyBody)))
   \<and> (bind_CreateNodeRequest body' = Inr req' \<longrightarrow>
        (\<exists>n. fst (AdminHandler_CreateNode u t1 t2 body')
                = \<lparr> code = StatusCreated, payload = NodeBody n \<rparr>
             \<and> Capacity n = (if new_Capacity req' = 0 then 100 else new_Capacity req')
             \<and> (new_Capacity req' < 0 \<longrightarrow> Capacity n < 0)))"
proof -
  have route: "RouteRequest d (req_RequestID req) (req_Coordinates req)
          = Inr (Some (convertDBNodeToModel r))"
    if "failure d = None" "healthy_rows d = [r]"
    using that by (rule RouteRequest_single)
  have handler: "\<exists>answer fields.
              PublicHandler_RouteRequest d now body =
                Inr (\<lparr> code = StatusOK, payload = answer \<rparr>,
                     [\<lparr> msg_Type = ''route_request'', msg_Data = JObject fields \<rparr>])
              \<and> map_of fields ''load_score''
                    = Some (JFloat (CalculateLoadScore (convertDBNodeToModel r)))
              \<and> (or_zero (db_Capacity r) = 0 \<longrightarrow>
                    \<not> is_finite (CalculateLoadScore (convertDBNodeToModel r))
                    \<and> answer = EmptyBody)"
    if "failure d = None" "healthy_rows d = [r]" "bind_RouteRequest body = Inr req"
  proof -
    have "or_zero (db_Capacity r) = 0 \<longrightarrow>
            \<not> is_finite (CalculateLoadScore (convertDBNodeToModel r))"
      using score_not_finite [of "convertDBNodeToModel r"]
      by (simp add: convertDBNodeToModel_def)
    then show ?thesis
      using route [OF that(1,2)] that(3)
      by (simp add: PublicHandler_RouteRequest_def Let_def json_encodable_def)
  qed
  have create: "\<exists>n. fst (AdminHandler_CreateNode u t1 t2 body')
                = \<lparr> code = StatusCreated, payload = NodeBody n \<rparr>
             \<and> Capacity n = (if new_Capacity req' = 0 then 100 else new_Capacity req')
             \<and> (new_Capacity req' < 0 \<longrightarrow> Capacity n < 0)"
    if "bind_CreateNodeRequest body' = Inr req'"
    using that by (simp add: AdminHandler_CreateNode_def Let_def)
  show ?thesis
    using score_finite [of node] score_not_finite [of node'] route handler create
    by blast
qed

theorem capacity_is_unchecked_witness:
  "0 < Capacity N1 \<and> is_finite (CPUUsage N1) \<and> is_finite (MemoryUsage N1)
   \<and> Capacity (convertDBNodeToModel N4_row) = 0
   \<and> failure \<lparr> nodes_table = [N4_row, N3_row ''active''], failure = None \<rparr> = None
   \<and> healthy_rows \<lparr> nodes_table = [N4_row, N3_row ''active''], failure = None \<rparr> = [N4_row]
   \<and> bind_RouteRequest (Some route_body) = Inr route_body
   \<and> or_zero (db_Capacity N4_row) = 0
   \<and> bind_CreateNodeRequest (Some (create_body (- 5))) = Inr (create_body (- 5))
   \<and> new_Capacity (create_body (- 5)) < 0
   \<and> is_finite (CalculateLoadScore N1)
   \<and> CalculateLoadScore (convertDBNodeToModel N4_row) = PosInf
   \<and> RouteRequest \<lparr> nodes_table = [N4_row, N3_row ''active''], failure = None \<rparr>
        ''req-1'' origin_request = Inr (Some (convertDBNodeToModel N4_row))
   \<and> (\<exists>fields.
         PublicHandler_RouteRequest \<lparr> nodes_table = [N4_row, N3_row ''active''], failure = None \<rparr>
            9 (Some route_body)
           = Inr (\<lparr> code = 200, payload = EmptyBody \<rparr>,
                  [\<lparr> msg_Type = ''route_request'', msg_Data = JObject fields \<rparr>])
         \<and> map_of fields ''load_score'' = Some (JFloat PosInf))
   \<and> (\<exists>n. fst (AdminHandler_CreateNode 7 5 6 (Some (create_body (- 5))))
              = \<lparr> code = 201, payload = NodeBody n \<rparr>
           \<and> Capacity n = - 5)"
proof -
  have score4: "CalculateLoadScore (convertDBNodeToModel N4_row) = PosInf"
    by (simp add: N4_row_def convertDBNodeToModel_def or_zero_def score_defs)
  have hyps: "0 < Capacity N1 \<and> is_finite (CPUUsage N1) \<and> is_finite (MemoryUsage N1)"
    "Capacity (convertDBNodeToModel N4_row) = 0"
    "failure \<lparr> nodes_table = [N4_row, N3_row ''active''], failure = None \<rparr> = None
     \<and> healthy_rows \<lparr> nodes_table = [N4_row, N3_row ''active''], failure = None \<rparr> = [N4_row]
     \<and> bind_RouteRequest (Some route_body) = Inr route_body"
    "or_zero (db_Capacity N4_row) = 0"
    "bind_CreateNodeRequest (Some (create_body (- 5))) = Inr (create_body (- 5))"
    "new_Capacity (create_body (- 5)) < 0"
    "req_RequestID route_body = ''req-1''" "req_Coordinates route_body = origin_request"
    "db_ID N4_row = 4" "new_Capacity (create_body (- 5)) = - 5"
    by (simp_all add: N1_fields N4_row_def N3_row_def convertDBNodeToModel_def or_zero_def
          healthy_rows_def bind_defs route_body_def origin_request_def create_body_def)
  show ?thesis
    using capacity_is_unchecked
            [of N1 "convertDBNodeToModel N4_row"
                "\<lparr> nodes_table = [N4_row, N3_row ''active''], failure = None \<rparr>" N4_row
                "Some route_body" route_body 9 "Some (create_body (- 5))" "create_body (- 5)"
                7 5 6]
    by (auto simp: hyps score4)
qed

end
